theory Spec2Isabelle
  imports Main "HOL-Library.Word"
begin

section \<open>JavaScript strings\<close>

text \<open>
  A JavaScript string is a sequence of UTF-16 code units; \<open>length\<close>, \<open>slice\<close>, \<open>trim\<close> and
  regular expressions without the \<open>u\<close> flag all work on code units.
\<close>

type_synonym jschar = "16 word"
type_synonym jsstring = "jschar list"

definition js :: "string \<Rightarrow> jsstring" where
  \<comment> \<open>an ASCII literal of the source\<close>
  "js s = map of_char s"

definition isDigit :: "jschar \<Rightarrow> bool" where
  \<comment> \<open>the class \<open>\d\<close>: the ten characters 0 to 9\<close>
  "isDigit c = (0x30 \<le> c \<and> c \<le> 0x39)"

definition isWhiteSpace :: "jschar \<Rightarrow> bool" where
  \<comment> \<open>what \<open>String.prototype.trim\<close> removes: WhiteSpace and LineTerminator of ECMAScript\<close>
  "isWhiteSpace c =
     (c \<in> set [0x09, 0x0A, 0x0B, 0x0C, 0x0D, 0x20, 0xA0, 0x1680, 0x2028, 0x2029,
                 0x202F, 0x205F, 0x3000, 0xFEFF]
      \<or> (0x2000 \<le> c \<and> c \<le> 0x200A))"

definition trim :: "jsstring \<Rightarrow> jsstring" where
  "trim s = rev (dropWhile isWhiteSpace (rev (dropWhile isWhiteSpace s)))"

definition slice0 :: "nat \<Rightarrow> jsstring \<Rightarrow> jsstring" where
  \<comment> \<open>\<open>s.slice(0, n)\<close>\<close>
  "slice0 n s = take n s"

definition replace_non_digits :: "jsstring \<Rightarrow> jsstring" where
  \<comment> \<open>\<open>s.replace(/\D/g, '')\<close>\<close>
  "replace_non_digits s = filter isDigit s"

definition test_digits :: "jsstring \<Rightarrow> bool" where
  \<comment> \<open>\<open>/^\d+$/.test(s)\<close>; without the \<open>m\<close> flag \<open>$\<close> is the end of the input\<close>
  "test_digits s = (s \<noteq> [] \<and> list_all isDigit s)"

fun includes_str :: "jsstring \<Rightarrow> jsstring \<Rightarrow> bool" where
  "includes_str [] sub = (sub = [])"
| "includes_str (c # cs) sub = (take (length sub) (c # cs) = sub \<or> includes_str cs sub)"

fun split_str :: "jschar \<Rightarrow> jsstring \<Rightarrow> jsstring \<Rightarrow> jsstring \<Rightarrow> jsstring list" where
  \<comment> \<open>\<open>s.split(sep)\<close> for the non-empty separator \<open>p # ps\<close>; \<open>cur\<close> is the piece being read\<close>
  "split_str p ps cur [] = [cur]"
| "split_str p ps cur (c # cs) =
     (if take (Suc (length ps)) (c # cs) = p # ps
      then cur # split_str p ps [] (drop (length ps) cs)
      else split_str p ps (cur @ [c]) cs)"

section \<open>The string schemas of the validation library\<close>

text \<open>
  The schemas are built with the validation library \<open>zod\<close>. A string schema is a list of
  checks run in order on the input; \<open>trim\<close> replaces the input by its trimmed form for the
  checks after it, and every other check that fails adds one issue, with the message given in
  the schema or the library's default one. No check stops the run. An object schema runs
  the schema of each key and labels the issues with the key; parsing succeeds when there is
  no issue. The library's pattern for email addresses is a parameter of the model.
\<close>

datatype issue_message =
    Text jsstring
  | DefaultRequired
  | DefaultTooSmall nat
  | DefaultTooBig nat
  | DefaultInvalid

datatype check =
    Trim
  | Min nat "jsstring option"
  | Max nat "jsstring option"
  | Regex "jsstring \<Rightarrow> bool" "jsstring option"
  | Email "jsstring \<Rightarrow> bool" "jsstring option"

definition message_or :: "jsstring option \<Rightarrow> issue_message \<Rightarrow> issue_message" where
  "message_or m d = (case m of Some t \<Rightarrow> Text t | None \<Rightarrow> d)"

fun run_checks :: "check list \<Rightarrow> jsstring \<Rightarrow> issue_message list" where
  "run_checks [] s = []"
| "run_checks (Trim # cs) s = run_checks cs (trim s)"
| "run_checks (Min n m # cs) s =
     (if length s < n then [message_or m (DefaultTooSmall n)] else []) @ run_checks cs s"
| "run_checks (Max n m # cs) s =
     (if length s > n then [message_or m (DefaultTooBig n)] else []) @ run_checks cs s"
| "run_checks (Regex re m # cs) s =
     (if \<not> re s then [message_or m DefaultInvalid] else []) @ run_checks cs s"
| "run_checks (Email re m # cs) s =
     (if \<not> re s then [message_or m DefaultInvalid] else []) @ run_checks cs s"

type_synonym issue = "jsstring \<times> issue_message"
type_synonym object_schema = "(jsstring \<times> check list) list"

definition parse_key :: "(jsstring \<times> jsstring) list \<Rightarrow> jsstring \<times> check list \<Rightarrow> issue list" where
  "parse_key input kc =
     (case map_of input (fst kc) of
        None \<Rightarrow> [(fst kc, DefaultRequired)]
      | Some v \<Rightarrow> map (Pair (fst kc)) (run_checks (snd kc) v))"

definition safeParse :: "object_schema \<Rightarrow> (jsstring \<times> jsstring) list \<Rightarrow> issue list" where
  \<comment> \<open>the issues of \<open>result.error.errors\<close>, in order; \<open>result.success\<close> is that there is none\<close>
  "safeParse shape input = concat (map (parse_key input) shape)"

section \<open>The RUC login screen\<close>

definition RUC_STORAGE_KEY :: jsstring where "RUC_STORAGE_KEY = js ''remembered_ruc''"
definition CURRENT_RUC_KEY :: jsstring where "CURRENT_RUC_KEY = js ''current_ruc''"
definition COMPANY_LOGO_KEY :: jsstring where "COMPANY_LOGO_KEY = js ''company_logos''"
definition API_BASE_URL :: jsstring where "API_BASE_URL = js ''http://localhost:3001/api''"
definition TARGET_APP_URL :: jsstring where "TARGET_APP_URL = js ''http://localhost:3000''"

definition msg_ruc_length :: jsstring where
  \<comment> \<open>"El RUC debe tener 11 digitos", with U+00ED for the first i of the last word\<close>
  "msg_ruc_length = js ''El RUC debe tener 11 d'' @ [0xED] @ js ''gitos''"

definition msg_ruc_numeric :: jsstring where
  \<comment> \<open>"El RUC solo debe contener numeros", with U+00FA for the u\<close>
  "msg_ruc_numeric = js ''El RUC solo debe contener n'' @ [0xFA] @ js ''meros''"

definition authSchema :: object_schema where
  "authSchema =
     [(js ''ruc'',
       [Trim, Min 11 (Some msg_ruc_length), Max 11 (Some msg_ruc_length),
        Regex test_digits (Some msg_ruc_numeric)])]"

datatype variant = Default | Destructive

datatype toast = Toast (title: jsstring) (description: jsstring) (variant: variant)

datatype effect =
    PreventDefault
  | Fetch jsstring jsstring "(jsstring \<times> jsstring) list"
  | SetItem jsstring jsstring
  | RemoveItem jsstring
  | ShowToast toast
  | ConsoleError
  | SetTimeoutRedirect nat jsstring
  | SignIn jsstring jsstring
  | SignUp jsstring jsstring

text \<open>
  The state both screens share: the component's state variables, the browser's local
  storage, and the sequence of effects performed so far. \<open>SetTimeoutRedirect ms url\<close> is a
  timer of \<open>ms\<close> milliseconds whose callback assigns \<open>url\<close> to \<open>window.location.href\<close>.
  Writing to local storage and showing a toast are taken to succeed: the model has no
  storage quota and no exception from either call.
\<close>

record form_state =
  ruc :: jsstring
  rememberRuc :: bool
  isLoading :: bool
  errors :: "jsstring \<rightharpoonup> issue_message"
  localStorage :: "jsstring \<rightharpoonup> jsstring"
  trace :: "effect list"

record auth_state = form_state +
  availableRucs :: "jsstring list"

definition perform :: "effect \<Rightarrow> ('a form_state_scheme) \<Rightarrow> ('a form_state_scheme)" where
  "perform e st = st\<lparr>trace := trace st @ [e]\<rparr>"

definition setItem :: "jsstring \<Rightarrow> jsstring \<Rightarrow> ('a form_state_scheme) \<Rightarrow> ('a form_state_scheme)" where
  "setItem k v st = perform (SetItem k v) (st\<lparr>localStorage := (localStorage st)(k \<mapsto> v)\<rparr>)"

definition removeItem :: "jsstring \<Rightarrow> ('a form_state_scheme) \<Rightarrow> ('a form_state_scheme)" where
  "removeItem k st = perform (RemoveItem k) (st\<lparr>localStorage := (localStorage st)(k := None)\<rparr>)"

definition rucOnChange :: "jsstring \<Rightarrow> ('a form_state_scheme) \<Rightarrow> ('a form_state_scheme)" where
  \<comment> \<open>\<open>onChange\<close> of the RUC input, the same on both screens\<close>
  "rucOnChange v st = st\<lparr>ruc := slice0 11 (replace_non_digits v)\<rparr>"

definition submitDisabled :: "('a form_state_scheme) \<Rightarrow> bool" where
  "submitDisabled st = isLoading st"

definition rucInputDisabled :: "('a form_state_scheme) \<Rightarrow> bool" where
  "rucInputDisabled st = isLoading st"

definition fieldErrors_ruc :: "issue list \<Rightarrow> (jsstring \<rightharpoonup> issue_message)" where
  \<comment> \<open>the \<open>forEach\<close> of \<open>validateForm\<close>: a later issue of the key overwrites an earlier one\<close>
  "fieldErrors_ruc issues =
     foldl (\<lambda>fe err. if fst err = js ''ruc'' then fe(js ''ruc'' \<mapsto> snd err) else fe)
       Map.empty issues"

definition validateForm :: "auth_state \<Rightarrow> bool \<times> auth_state" where
  "validateForm st =
     (let result = safeParse authSchema [(js ''ruc'', ruc st)]
      in if result \<noteq> [] then (False, st\<lparr>errors := fieldErrors_ruc result\<rparr>)
         else (True, st\<lparr>errors := Map.empty\<rparr>))"

subsection \<open>The validation request\<close>

text \<open>
  What the request can come to: \<open>fetch\<close> rejects (no connection), or it resolves to a
  response with a status and a body. The body is kept as the result of \<open>response.json()\<close>:
  \<open>None\<close> when it is not JSON text, the parsed value otherwise. A number is kept as its
  literal: only its type matters here.
\<close>

datatype json =
    JNull
  | JBool bool
  | JNumber jsstring
  | JString jsstring
  | JArray "json list"
  | JObject "(jsstring \<times> json) list"

datatype fetch_outcome = NetworkError | Response nat "json option"

datatype js_error = TypeError | SyntaxError | FetchFailed | ValidationError

definition response_ok :: "nat \<Rightarrow> bool" where
  \<comment> \<open>\<open>response.ok\<close>: the status is in the range 200 to 299\<close>
  "response_ok status = (200 \<le> status \<and> status \<le> 299)"

definition get_message :: "json \<Rightarrow> js_error + json option" where
  \<comment> \<open>\<open>errorData.message\<close>: a TypeError on \<open>null\<close>, \<open>undefined\<close> (\<open>None\<close>) where there is no
      such property; of a repeated key the parser keeps the last value\<close>
  "get_message errorData =
     (case errorData of
        JNull \<Rightarrow> Inl TypeError
      | JObject kvs \<Rightarrow> Inr (map_of (rev kvs) (js ''message''))
      | _ \<Rightarrow> Inr None)"

definition isRucListChar :: "jschar \<Rightarrow> bool" where
  \<comment> \<open>the class \<open>[\d, ]\<close>\<close>
  "isRucListChar c = (isDigit c \<or> c = 0x2C \<or> c = 0x20)"

definition permitidos :: jsstring where
  "permitidos = js ''RUCs permitidos: ''"

fun match_permitidos :: "jsstring \<Rightarrow> jsstring option" where
  \<comment> \<open>group 1 of \<open>s.match(/RUCs permitidos: ([\d, ]+)/)\<close>, \<open>None\<close> when there is no match:
      the first position where the literal and at least one character of the class follow,
      and there the longest run of the class\<close>
  "match_permitidos [] = None"
| "match_permitidos (c # cs) =
     (let run = takeWhile isRucListChar (drop (length permitidos) (c # cs))
      in if take (length permitidos) (c # cs) = permitidos \<and> run \<noteq> [] then Some run
         else match_permitidos cs)"

definition optional_match :: "json option \<Rightarrow> js_error + jsstring option" where
  \<comment> \<open>\<open>m?.match(...)\<close>: skipped on \<open>undefined\<close> and \<open>null\<close>, a TypeError on a value that is not
      a string (it has no method \<open>match\<close>)\<close>
  "optional_match m =
     (case m of
        None \<Rightarrow> Inr None
      | Some JNull \<Rightarrow> Inr None
      | Some (JString s) \<Rightarrow> Inr (match_permitidos s)
      | Some _ \<Rightarrow> Inl TypeError)"

definition message_or_default :: "json option \<Rightarrow> jsstring \<Rightarrow> jsstring" where
  \<comment> \<open>\<open>errorData.message || d\<close>, once the message is known to be absent, null or a string\<close>
  "message_or_default m d = (case m of Some (JString s) \<Rightarrow> (if s = [] then d else s) | _ \<Rightarrow> d)"

definition msg_ruc_not_found :: jsstring where
  "msg_ruc_not_found = js ''RUC no encontrado en el sistema''"

definition toast_ruc_invalid :: "json option \<Rightarrow> toast" where
  \<comment> \<open>the accented letters of the source are written as their code units\<close>
  "toast_ruc_invalid m =
     Toast (js ''RUC no v'' @ [0xE1] @ js ''lido'')
       (message_or_default m
          (js ''El RUC ingresado no est'' @ [0xE1] @ js '' registrado en el sistema.''))
       Destructive"

definition toast_connection_error :: toast where
  "toast_connection_error =
     Toast (js ''Error de conexi'' @ [0xF3] @ js ''n'')
       (js ''No se pudo conectar con el servidor. Verifica que la API est'' @ [0xE9]
        @ js '' corriendo en el puerto 3001.'')
       Destructive"

definition toast_welcome :: toast where
  "toast_welcome =
     Toast ([0xA1] @ js ''Bienvenido!'') (js ''RUC validado correctamente. Redirigiendo...'')
       Default"

definition validation_request :: "jsstring \<Rightarrow> effect" where
  "validation_request rucValue =
     Fetch (js ''GET'') (API_BASE_URL @ js ''/parametros-sistema'')
       [(js ''Content-Type'', js ''application/json''), (js ''ruc'', rucValue)]"

definition status_400 :: "json option \<Rightarrow> auth_state \<Rightarrow> js_error + bool \<times> auth_state" where
  \<comment> \<open>the branch \<open>response.status === 400\<close>; what can throw comes before any change of state\<close>
  "status_400 body st =
     (case body of
        None \<Rightarrow> Inl SyntaxError
      | Some errorData \<Rightarrow>
          (case get_message errorData of
             Inl e \<Rightarrow> Inl e
           | Inr m \<Rightarrow>
               (case optional_match m of
                  Inl e \<Rightarrow> Inl e
                | Inr match \<Rightarrow>
                    (let st1 = (case match of
                                  None \<Rightarrow> st
                                | Some g \<Rightarrow>
                                    st\<lparr>availableRucs := map trim (split_str 0x2C [0x20] [] g)\<rparr>);
                         st2 = st1\<lparr>errors := [js ''ruc'' \<mapsto> Text msg_ruc_not_found]\<rparr>
                     in Inr (False, perform (ShowToast (toast_ruc_invalid m)) st2)))))"

definition try_validate :: "fetch_outcome \<Rightarrow> auth_state \<Rightarrow> js_error + bool \<times> auth_state" where
  \<comment> \<open>the \<open>try\<close> block after the request is sent\<close>
  "try_validate outcome st =
     (case outcome of
        NetworkError \<Rightarrow> Inl FetchFailed
      | Response status body \<Rightarrow>
          if response_ok status then Inr (True, st)
          else if status = 400 then status_400 body st
          else Inl ValidationError)"

definition validateRucWithAPI_resume :: "fetch_outcome \<Rightarrow> auth_state \<Rightarrow> bool \<times> auth_state" where
  \<comment> \<open>from the moment the request settles, with the \<open>catch\<close> block\<close>
  "validateRucWithAPI_resume outcome st =
     (case try_validate outcome st of
        Inr r \<Rightarrow> r
      | Inl e \<Rightarrow> (False, perform (ShowToast toast_connection_error) (perform ConsoleError st)))"

definition validateRucWithAPI :: "jsstring \<Rightarrow> fetch_outcome \<Rightarrow> auth_state \<Rightarrow> bool \<times> auth_state" where
  "validateRucWithAPI rucValue outcome st =
     validateRucWithAPI_resume outcome (perform (validation_request rucValue) st)"

subsection \<open>Submitting the form\<close>

text \<open>
  \<open>handleSubmit\<close> runs up to the request, waits, and resumes when the request settles;
  the second part reads \<open>ruc\<close> and \<open>rememberRuc\<close> as they were when the handler started
  (the values its closure holds), and the state as it is by then.
\<close>

definition handleSubmit_begin :: "auth_state \<Rightarrow> bool \<times> auth_state" where
  \<comment> \<open>the flag says whether a request was sent and the handler is waiting for it\<close>
  "handleSubmit_begin st =
     (case validateForm (perform PreventDefault st) of
        (False, st1) \<Rightarrow> (False, st1)
      | (True, st1) \<Rightarrow>
          (True, perform (validation_request (ruc st))
                   (st1\<lparr>isLoading := True, availableRucs := []\<rparr>)))"

definition handleSubmit_resume :: "jsstring \<Rightarrow> bool \<Rightarrow> fetch_outcome \<Rightarrow> auth_state \<Rightarrow> auth_state" where
  "handleSubmit_resume rucV remember outcome st =
     (case validateRucWithAPI_resume outcome st of
        (False, st1) \<Rightarrow> st1\<lparr>isLoading := False\<rparr>
      | (True, st1) \<Rightarrow>
          (let st2 = setItem CURRENT_RUC_KEY rucV st1;
               st3 = (if remember then setItem RUC_STORAGE_KEY rucV st2
                      else removeItem RUC_STORAGE_KEY st2)
           in perform (SetTimeoutRedirect 800 (TARGET_APP_URL @ js ''?ruc='' @ rucV))
                (perform (ShowToast toast_welcome) st3)))"

definition handleSubmit :: "fetch_outcome \<Rightarrow> auth_state \<Rightarrow> auth_state" where
  \<comment> \<open>a whole submission, nothing else happening while the request is out\<close>
  "handleSubmit outcome st =
     (case handleSubmit_begin st of
        (False, st1) \<Rightarrow> st1
      | (True, st1) \<Rightarrow> handleSubmit_resume (ruc st) (rememberRuc st) outcome st1)"

section \<open>The full form: RUC, email and password\<close>

text \<open>
  The second screen adds an email and a password and signs in or up through the
  application's authentication context. What \<open>signIn\<close> and \<open>signUp\<close> come to is an input of
  the model: the promise resolves to an object whose \<open>error\<close> is null or has a message, or it
  rejects.
\<close>

record full_state = form_state +
  isLogin :: bool
  email :: jsstring
  password :: jsstring

datatype auth_result = AuthResolved "jsstring option" | AuthRejected

definition msg_email :: jsstring where
  "msg_email = js ''Ingresa un email v'' @ [0xE1] @ js ''lido''"

definition msg_password :: jsstring where
  "msg_password = js ''La contrase'' @ [0xF1] @ js ''a debe tener al menos 6 caracteres''"

definition authSchema_full :: "(jsstring \<Rightarrow> bool) \<Rightarrow> object_schema" where
  "authSchema_full emailRegex =
     [(js ''ruc'',
       [Trim, Min 11 (Some msg_ruc_length), Max 11 (Some msg_ruc_length),
        Regex test_digits (Some msg_ruc_numeric)]),
      (js ''email'', [Trim, Email emailRegex (Some msg_email), Max 255 None]),
      (js ''password'', [Min 6 (Some msg_password), Max 100 None])]"

definition record_issue :: "(jsstring \<rightharpoonup> issue_message) \<Rightarrow> issue \<Rightarrow> (jsstring \<rightharpoonup> issue_message)" where
  \<comment> \<open>the body of the \<open>forEach\<close> of the full form's \<open>validateForm\<close>\<close>
  "record_issue fe err =
     (let fe1 = (if fst err = js ''ruc'' then fe(js ''ruc'' \<mapsto> snd err) else fe);
          fe2 = (if fst err = js ''email'' then fe1(js ''email'' \<mapsto> snd err) else fe1)
      in if fst err = js ''password'' then fe2(js ''password'' \<mapsto> snd err) else fe2)"

definition fieldErrors_full :: "issue list \<Rightarrow> (jsstring \<rightharpoonup> issue_message)" where
  "fieldErrors_full issues = foldl record_issue Map.empty issues"

definition validateForm_full :: "(jsstring \<Rightarrow> bool) \<Rightarrow> full_state \<Rightarrow> bool \<times> full_state" where
  "validateForm_full emailRegex st =
     (let result = safeParse (authSchema_full emailRegex)
                     [(js ''ruc'', ruc st), (js ''email'', email st),
                      (js ''password'', password st)]
      in if result \<noteq> [] then (False, st\<lparr>errors := fieldErrors_full result\<rparr>)
         else (True, st\<lparr>errors := Map.empty\<rparr>))"

definition auth_error_message :: "jsstring \<Rightarrow> jsstring" where
  "auth_error_message m =
     (if includes_str m (js ''Invalid login credentials'')
      then js ''Credenciales inv'' @ [0xE1] @ js ''lidas. Verifica tu email y contrase''
           @ [0xF1] @ js ''a.''
      else if includes_str m (js ''User already registered'')
      then js ''Este email ya est'' @ [0xE1] @ js '' registrado. Intenta iniciar sesi''
           @ [0xF3] @ js ''n.''
      else m)"

definition toast_account_created :: toast where
  "toast_account_created =
     Toast ([0xA1] @ js ''Cuenta creada!'') (js ''Tu cuenta ha sido creada exitosamente.'')
       Default"

definition toast_unexpected :: toast where
  "toast_unexpected =
     Toast (js ''Error'')
       (js ''Ocurri'' @ [0xF3] @ js '' un error inesperado. Intenta de nuevo.'') Destructive"

definition handleSubmit_full_begin :: "(jsstring \<Rightarrow> bool) \<Rightarrow> full_state \<Rightarrow> bool \<times> full_state" where
  "handleSubmit_full_begin emailRegex st =
     (case validateForm_full emailRegex (perform PreventDefault st) of
        (False, st1) \<Rightarrow> (False, st1)
      | (True, st1) \<Rightarrow>
          (let st2 = st1\<lparr>isLoading := True\<rparr>;
               st3 = (if rememberRuc st then setItem RUC_STORAGE_KEY (ruc st) st2
                      else removeItem RUC_STORAGE_KEY st2)
           in (True, perform (if isLogin st then SignIn (email st) (password st)
                              else SignUp (email st) (password st)) st3)))"

definition handleSubmit_full_resume :: "bool \<Rightarrow> auth_result \<Rightarrow> full_state \<Rightarrow> full_state" where
  \<comment> \<open>the rest of the \<open>try\<close>, the \<open>catch\<close> and the \<open>finally\<close>\<close>
  "handleSubmit_full_resume login result st =
     (let st1 = (case result of
                   AuthRejected \<Rightarrow> perform (ShowToast toast_unexpected) st
                 | AuthResolved (Some m) \<Rightarrow>
                     perform (ShowToast (Toast (js ''Error'') (auth_error_message m) Destructive)) st
                 | AuthResolved None \<Rightarrow>
                     if \<not> login then perform (ShowToast toast_account_created) st else st)
      in st1\<lparr>isLoading := False\<rparr>)"

definition handleSubmit_full :: "(jsstring \<Rightarrow> bool) \<Rightarrow> auth_result \<Rightarrow> full_state \<Rightarrow> full_state" where
  "handleSubmit_full emailRegex result st =
     (case handleSubmit_full_begin emailRegex st of
        (False, st1) \<Rightarrow> st1
      | (True, st1) \<Rightarrow> handleSubmit_full_resume (isLogin st) result st1)"

section \<open>Initial states\<close>

text \<open>The states the \<open>useState\<close> calls set up, with nothing stored and nothing done yet.\<close>

definition initial_auth_state :: auth_state where
  "initial_auth_state =
     \<lparr>ruc = [], rememberRuc = False, isLoading = False, errors = Map.empty,
      localStorage = Map.empty, trace = [], availableRucs = []\<rparr>"

definition initial_full_state :: full_state where
  "initial_full_state =
     \<lparr>ruc = [], rememberRuc = False, isLoading = False, errors = Map.empty,
      localStorage = Map.empty, trace = [], isLogin = True, email = [], password = []\<rparr>"

definition storage_effect :: "effect \<Rightarrow> bool" where
  \<comment> \<open>the effects that write to local storage\<close>
  "storage_effect e = (case e of SetItem k v \<Rightarrow> True | RemoveItem k \<Rightarrow> True | _ \<Rightarrow> False)"

definition new_effects :: "('a form_state_scheme) \<Rightarrow> ('b form_state_scheme) \<Rightarrow> effect list" where
  \<comment> \<open>the effects performed from the state \<open>st\<close> to the state \<open>st'\<close>\<close>
  "new_effects st st' = drop (length (trace st)) (trace st')"

text \<open>Sample inputs: the RUC of the input's placeholder typed in, and a message of the API.\<close>

definition typed_state :: auth_state where
  "typed_state = rucOnChange (js ''10004438804'') initial_auth_state"

definition sample_message :: jsstring where
  "sample_message = js ''RUC no autorizado. '' @ permitidos @ js ''10004438804, 20123456789'' @ js ''.''"

definition has_at :: "jsstring \<Rightarrow> bool" where
  \<comment> \<open>a pattern to run the full form on; the library's own pattern is not fixed here\<close>
  "has_at s = (0x40 \<in> set s)"

definition sample_full_state :: full_state where
  "sample_full_state =
     initial_full_state\<lparr>ruc := js ''20123456789'', rememberRuc := True,
                        email := js ''tu@email.com'', password := js ''secreto''\<rparr>"

text \<open>
  Auxiliary to the proofs about the full form: what the \<open>forEach\<close> leaves for one key, and
  the issues of each key's schema in closed form.
\<close>

definition record_last :: "jsstring \<Rightarrow> issue_message list \<Rightarrow> (jsstring \<rightharpoonup> issue_message) \<Rightarrow> (jsstring \<rightharpoonup> issue_message)" where
  "record_last k ms fe = (if ms = [] then fe else fe(k \<mapsto> last ms))"

definition ruc_issues :: "jsstring \<Rightarrow> issue_message list" where
  "ruc_issues s = (if length (trim s) \<noteq> 11 then [Text msg_ruc_length] else [])
     @ (if \<not> test_digits (trim s) then [Text msg_ruc_numeric] else [])"

definition email_issues :: "(jsstring \<Rightarrow> bool) \<Rightarrow> jsstring \<Rightarrow> issue_message list" where
  "email_issues re s = (if \<not> re (trim s) then [Text msg_email] else [])
     @ (if length (trim s) > 255 then [DefaultTooBig 255] else [])"

definition password_issues :: "jsstring \<Rightarrow> issue_message list" where
  "password_issues s = (if length s < 6 then [Text msg_password] else [])
     @ (if length s > 100 then [DefaultTooBig 100] else [])"

section \<open>Facts about strings and keys\<close>

lemma placeholder_digits:
  "length (js ''10004438804'') = 11 \<and> list_all isDigit (js ''10004438804'')"
  by (simp add: js_def isDigit_def)

lemma trim_placeholder: "trim (js '' 10004438804 '') = js ''10004438804''"
  by (simp add: js_def trim_def isWhiteSpace_def)

lemma trim_digits: "list_all isDigit s \<Longrightarrow> trim s = s"
proof -
  assume d: "list_all isDigit s"
  have nw: "isDigit c \<Longrightarrow> \<not> isWhiteSpace c" for c
    by (auto simp: isDigit_def isWhiteSpace_def word_le_nat_alt)
  have "dropWhile isWhiteSpace xs = xs" if "list_all isDigit xs" for xs
    using that nw by (cases xs) auto
  moreover have "list_all isDigit (rev s)"
    using d by (simp add: list_all_iff)
  ultimately show ?thesis
    using d by (simp add: trim_def)
qed

lemma filter_digits_take: "filter isDigit (take n (filter isDigit xs)) = take n (filter isDigit xs)"
  by (rule filter_True) (auto dest: in_set_takeD)

lemma test_digits_11: "length s = 11 \<Longrightarrow> test_digits s = list_all isDigit s"
  by (auto simp: test_digits_def)

lemma storage_keys_distinct: "CURRENT_RUC_KEY \<noteq> RUC_STORAGE_KEY"
  by (simp add: CURRENT_RUC_KEY_def RUC_STORAGE_KEY_def js_def)

lemma ruc_initial_auth: "ruc (initial_auth_state\<lparr>ruc := r\<rparr>) = r"
  by (simp add: initial_auth_state_def)

section \<open>Client-side validation of the RUC\<close>

lemma validateForm_result:
  "validateForm st =
     (if length (trim (ruc st)) = 11 \<and> list_all isDigit (trim (ruc st))
      then (True, st\<lparr>errors := Map.empty\<rparr>)
      else (False, st\<lparr>errors := [js ''ruc'' \<mapsto>
              Text (if test_digits (trim (ruc st)) then msg_ruc_length else msg_ruc_numeric)]\<rparr>))"
  unfolding validateForm_def safeParse_def authSchema_def parse_key_def
  by (auto simp: message_or_def fieldErrors_ruc_def Let_def test_digits_11)

text \<open>
  Claim C1. For every string held in the RUC field, \<open>validateForm\<close> succeeds exactly when the
  string, trimmed of leading and trailing white space, has 11 characters that are all decimal
  digits. It changes nothing but the field errors: on success they are cleared, on failure
  the RUC error is set to the message of the last check that failed, the digits-only message
  when the pattern fails and the 11-digits message otherwise.
\<close>

theorem validateForm_iff:
  "fst (validateForm st) = (length (trim (ruc st)) = 11 \<and> list_all isDigit (trim (ruc st)))
   \<and> snd (validateForm st) =
       st\<lparr>errors := (if fst (validateForm st) then Map.empty
                      else [js ''ruc'' \<mapsto> Text (if test_digits (trim (ruc st))
                                               then msg_ruc_length else msg_ruc_numeric)])\<rparr>"
  by (simp add: validateForm_result)

theorem validateForm_iff_witness:
  "fst (validateForm (initial_auth_state\<lparr>ruc := js '' 10004438804 ''\<rparr>))"
  using validateForm_iff [of "initial_auth_state\<lparr>ruc := js '' 10004438804 ''\<rparr>"]
    trim_placeholder placeholder_digits
  by (simp add: ruc_initial_auth)

section \<open>Typing into the RUC field\<close>

text \<open>
  Claim C2. For every string typed into the RUC input, the change handler stores the string
  with every non-digit removed, cut to its first 11 characters: the stored value has at most
  11 characters, all of them decimal digits, and a string of at most 11 digits is stored as
  it is.
\<close>

theorem rucOnChange_stores:
  "ruc (rucOnChange v st) = take 11 (filter isDigit v)
   \<and> length (ruc (rucOnChange v st)) \<le> 11
   \<and> list_all isDigit (ruc (rucOnChange v st))
   \<and> (length v \<le> 11 \<and> list_all isDigit v \<longrightarrow> ruc (rucOnChange v st) = v)"
  by (auto simp: rucOnChange_def slice0_def replace_non_digits_def list_all_iff dest: in_set_takeD)

theorem rucOnChange_stores_witness:
  "length (js ''10004438804'') \<le> 11 \<and> list_all isDigit (js ''10004438804'')
   \<and> ruc (rucOnChange (js ''10004438804'') initial_auth_state) = js ''10004438804''"
proof -
  have h: "length (js ''10004438804'') \<le> 11 \<and> list_all isDigit (js ''10004438804'')"
    using placeholder_digits by simp
  then show ?thesis
    using rucOnChange_stores [of "js ''10004438804''" initial_auth_state] by blast
qed

text \<open>
  Claim C10. Removing the non-digits and cutting to 11 characters is idempotent: applied to
  its own result it returns that result, so the change handler run on the value it has just
  stored leaves the state as it is.
\<close>

theorem rucOnChange_idempotent:
  "slice0 11 (replace_non_digits (slice0 11 (replace_non_digits s)))
     = slice0 11 (replace_non_digits s)
   \<and> rucOnChange (ruc (rucOnChange v st)) (rucOnChange v st) = rucOnChange v st"
  by (simp add: rucOnChange_def slice0_def replace_non_digits_def filter_digits_take)

section \<open>The submit handler of the RUC screen\<close>

lemma validateForm_perform:
  "validateForm (perform e st) = (fst (validateForm st), perform e (snd (validateForm st)))"
  by (simp add: validateForm_result perform_def)

lemma handleSubmit_begin_result:
  "handleSubmit_begin st =
     (if fst (validateForm st)
      then (True, st\<lparr>isLoading := True, errors := Map.empty,
                       trace := trace st @ [PreventDefault, validation_request (ruc st)],
                       availableRucs := []\<rparr>)
      else (False, (snd (validateForm st))\<lparr>trace := trace st @ [PreventDefault]\<rparr>))"
  by (simp add: handleSubmit_begin_def validateForm_perform validateForm_result perform_def)

lemma resume_ok:
  "response_ok status \<Longrightarrow> validateRucWithAPI_resume (Response status body) st = (True, st)"
  by (simp add: validateRucWithAPI_resume_def try_validate_def)

lemma resume_generic:
  assumes "outcome = NetworkError
           \<or> (\<exists>status body. outcome = Response status body \<and> \<not> response_ok status \<and> status \<noteq> 400)
           \<or> outcome = Response 400 None"
  shows "validateRucWithAPI_resume outcome st =
           (False, st\<lparr>trace := trace st @ [ConsoleError, ShowToast toast_connection_error]\<rparr>)"
  using assms
  by (auto simp: validateRucWithAPI_resume_def try_validate_def status_400_def perform_def response_ok_def)

lemma resume_accepts:
  "fst (validateRucWithAPI_resume outcome st) =
     (case outcome of NetworkError \<Rightarrow> False | Response status body \<Rightarrow> response_ok status)"
  by (auto simp: validateRucWithAPI_resume_def try_validate_def status_400_def Let_def
      split: fetch_outcome.splits option.splits sum.splits)

lemma resume_storage:
  "localStorage (snd (validateRucWithAPI_resume outcome st)) = localStorage st"
  by (auto simp: validateRucWithAPI_resume_def try_validate_def status_400_def Let_def perform_def
      split: fetch_outcome.splits option.splits sum.splits)

lemma resume_isLoading:
  "isLoading (snd (validateRucWithAPI_resume outcome st)) = isLoading st"
  by (auto simp: validateRucWithAPI_resume_def try_validate_def status_400_def Let_def perform_def
      split: fetch_outcome.splits option.splits sum.splits)

lemma resume_trace_rejected:
  "\<not> fst (validateRucWithAPI_resume outcome st) \<Longrightarrow>
   \<exists>t. trace (snd (validateRucWithAPI_resume outcome st)) = trace st @ t \<and> filter storage_effect t = []"
  by (auto simp: validateRucWithAPI_resume_def try_validate_def status_400_def Let_def perform_def
      storage_effect_def
      split: fetch_outcome.splits option.splits sum.splits if_splits)

lemma api_accepts:
  "fst (validateRucWithAPI rucValue outcome st) =
     (case outcome of NetworkError \<Rightarrow> False | Response status body \<Rightarrow> response_ok status)"
  by (simp add: validateRucWithAPI_def resume_accepts)

lemma handleSubmit_invalid:
  "\<not> fst (validateForm st) \<Longrightarrow>
   handleSubmit outcome st = (snd (validateForm st))\<lparr>trace := trace st @ [PreventDefault]\<rparr>"
  by (simp add: handleSubmit_def handleSubmit_begin_result)

lemma handleSubmit_accepted:
  assumes "fst (validateForm st)" and "fst (validateRucWithAPI (ruc st) outcome st)"
  shows "handleSubmit outcome st =
     st\<lparr>isLoading := True, errors := Map.empty,
        localStorage := (if rememberRuc st
                         then (localStorage st)(CURRENT_RUC_KEY \<mapsto> ruc st, RUC_STORAGE_KEY \<mapsto> ruc st)
                         else (localStorage st)(CURRENT_RUC_KEY \<mapsto> ruc st, RUC_STORAGE_KEY := None)),
        trace := trace st @
          [PreventDefault, validation_request (ruc st), SetItem CURRENT_RUC_KEY (ruc st),
           if rememberRuc st then SetItem RUC_STORAGE_KEY (ruc st) else RemoveItem RUC_STORAGE_KEY,
           ShowToast toast_welcome,
           SetTimeoutRedirect 800 (TARGET_APP_URL @ js ''?ruc='' @ ruc st)],
        availableRucs := []\<rparr>"
proof -
  obtain status body where o: "outcome = Response status body" "response_ok status"
    using assms(2) by (auto simp: api_accepts split: fetch_outcome.splits)
  show ?thesis
    using assms(1) o
    by (simp add: handleSubmit_def handleSubmit_begin_result handleSubmit_resume_def resume_ok
        setItem_def removeItem_def perform_def Let_def)
qed

lemma handleSubmit_rejected:
  assumes "fst (validateForm st)" and "\<not> fst (validateRucWithAPI (ruc st) outcome st)"
  shows "localStorage (handleSubmit outcome st) = localStorage st"
    and "\<not> isLoading (handleSubmit outcome st)"
    and "\<exists>t. trace (handleSubmit outcome st) = trace st @ PreventDefault # validation_request (ruc st) # t
            \<and> filter storage_effect t = []"
proof -
  let ?st1 = "st\<lparr>isLoading := True, errors := Map.empty,
                       trace := trace st @ [PreventDefault, validation_request (ruc st)],
                       availableRucs := []\<rparr>"
  have r: "\<not> fst (validateRucWithAPI_resume outcome ?st1)"
    using assms(2) by (simp add: api_accepts resume_accepts)
  then obtain st2 where s2: "validateRucWithAPI_resume outcome ?st1 = (False, st2)"
    by (cases "validateRucWithAPI_resume outcome ?st1") auto
  have h: "handleSubmit outcome st = st2\<lparr>isLoading := False\<rparr>"
    using assms(1) s2 by (simp add: handleSubmit_def handleSubmit_begin_result handleSubmit_resume_def)
  show "localStorage (handleSubmit outcome st) = localStorage st"
    using resume_storage[of outcome ?st1] s2 h by simp
  show "\<not> isLoading (handleSubmit outcome st)"
    using h by simp
  show "\<exists>t. trace (handleSubmit outcome st) = trace st @ PreventDefault # validation_request (ruc st) # t
            \<and> filter storage_effect t = []"
    using resume_trace_rejected[OF r] s2 h by auto
qed

lemma typed_state_fields:
  "ruc typed_state = js ''10004438804''" "trace typed_state = []"
  "localStorage typed_state = Map.empty" "\<not> rememberRuc typed_state"
  "\<not> isLoading typed_state" "errors typed_state = Map.empty"
  by (simp_all add: typed_state_def rucOnChange_def initial_auth_state_def slice0_def
      replace_non_digits_def js_def isDigit_def)

lemma typed_state_valid: "fst (validateForm typed_state)"
  using placeholder_digits by (simp add: validateForm_result typed_state_fields trim_digits)

lemma initial_invalid: "\<not> fst (validateForm initial_auth_state)"
  by (simp add: validateForm_result initial_auth_state_def trim_def)

text \<open>
  Claim C3. For every state whose RUC is 11 decimal digits, when the request comes back with
  status 200 \<open>validateRucWithAPI\<close> returns true, and the submit handler goes on: after the
  request it stores the RUC, shows the welcome toast and, last, sets the timer that sends the
  browser to the target application's URL followed by \<open>?ruc=\<close> and the submitted RUC.
\<close>

theorem handleSubmit_status_200:
  assumes "length (ruc st) = 11" and "list_all isDigit (ruc st)"
  shows "fst (validateRucWithAPI (ruc st) (Response 200 body) st')
    \<and> trace (handleSubmit (Response 200 body) st) =
        trace st @
          [PreventDefault, validation_request (ruc st), SetItem CURRENT_RUC_KEY (ruc st),
           if rememberRuc st then SetItem RUC_STORAGE_KEY (ruc st) else RemoveItem RUC_STORAGE_KEY,
           ShowToast toast_welcome,
           SetTimeoutRedirect 800 (TARGET_APP_URL @ js ''?ruc='' @ ruc st)]"
proof -
  have v: "fst (validateForm st)"
    using assms by (simp add: validateForm_result trim_digits)
  have a: "fst (validateRucWithAPI (ruc st) (Response 200 body) s)" for s
    by (simp add: api_accepts response_ok_def)
  show ?thesis
    using a handleSubmit_accepted[OF v a] by simp
qed

theorem handleSubmit_status_200_witness:
  "length (ruc typed_state) = 11 \<and> list_all isDigit (ruc typed_state)
   \<and> fst (validateRucWithAPI (ruc typed_state) (Response 200 None) typed_state)
   \<and> trace (handleSubmit (Response 200 None) typed_state) =
        [PreventDefault, validation_request (js ''10004438804''),
         SetItem CURRENT_RUC_KEY (js ''10004438804''), RemoveItem RUC_STORAGE_KEY,
         ShowToast toast_welcome,
         SetTimeoutRedirect 800 (TARGET_APP_URL @ js ''?ruc='' @ js ''10004438804'')]"
proof -
  have a: "length (ruc typed_state) = 11" and b: "list_all isDigit (ruc typed_state)"
    using placeholder_digits by (simp_all add: typed_state_fields)
  show ?thesis
    using handleSubmit_status_200 [OF a b, of None typed_state] a b
    by (simp add: typed_state_fields)
qed

text \<open>
  Claim C5. When the request fails (no connection), or comes back with a status that is
  neither in 200 to 299 nor 400, or comes back with status 400 and a body that is not JSON,
  \<open>validateRucWithAPI\<close> returns false, and besides the request all it does is log the error
  and show the one toast of the connection error; no state variable changes.
\<close>

theorem generic_failure:
  assumes "outcome = NetworkError
           \<or> (\<exists>status body. outcome = Response status body \<and> \<not> response_ok status \<and> status \<noteq> 400)
           \<or> outcome = Response 400 None"
  shows "validateRucWithAPI rucValue outcome st =
           (False, st\<lparr>trace := trace st @ [validation_request rucValue, ConsoleError,
                                            ShowToast toast_connection_error]\<rparr>)"
  using resume_generic[OF assms] by (simp add: validateRucWithAPI_def perform_def)

theorem generic_failure_witness:
  "\<not> response_ok 500 \<and> (500::nat) \<noteq> 400
   \<and> validateRucWithAPI (js ''10004438804'') (Response 500 None) typed_state =
       (False, typed_state\<lparr>trace := [validation_request (js ''10004438804''), ConsoleError,
                                       ShowToast toast_connection_error]\<rparr>)
   \<and> validateRucWithAPI (js ''10004438804'') NetworkError typed_state =
       (False, typed_state\<lparr>trace := [validation_request (js ''10004438804''), ConsoleError,
                                       ShowToast toast_connection_error]\<rparr>)"
proof -
  have h: "\<not> response_ok 500 \<and> (500::nat) \<noteq> 400"
    by (simp add: response_ok_def)
  show ?thesis
    using h generic_failure [of "Response 500 None" "js ''10004438804''" typed_state]
      generic_failure [of NetworkError "js ''10004438804''" typed_state]
    by (simp add: typed_state_fields)
qed

text \<open>
  Claim C9. A submission writes the key \<open>current_ruc\<close> exactly when the client-side
  validation passes and \<open>validateRucWithAPI\<close> returns true, and then the key holds the
  submitted RUC. In every other submission the handler writes nothing to local storage:
  the storage is as it was and none of the effects is a write.
\<close>

theorem current_ruc_written_iff:
  "(SetItem CURRENT_RUC_KEY (ruc st) \<in> set (new_effects st (handleSubmit outcome st)))
     = (fst (validateForm st) \<and> fst (validateRucWithAPI (ruc st) outcome st))
   \<and> (fst (validateForm st) \<and> fst (validateRucWithAPI (ruc st) outcome st) \<longrightarrow>
        localStorage (handleSubmit outcome st) CURRENT_RUC_KEY = Some (ruc st))
   \<and> (\<not> (fst (validateForm st) \<and> fst (validateRucWithAPI (ruc st) outcome st)) \<longrightarrow>
        localStorage (handleSubmit outcome st) = localStorage st
        \<and> filter storage_effect (new_effects st (handleSubmit outcome st)) = [])"
proof (cases "fst (validateForm st)")
  case False
  then show ?thesis
    by (simp add: handleSubmit_invalid new_effects_def validateForm_result storage_effect_def)
next
  case v: True
  show ?thesis
  proof (cases "fst (validateRucWithAPI (ruc st) outcome st)")
    case True
    then show ?thesis
      using v by (simp add: handleSubmit_accepted new_effects_def storage_keys_distinct)
  next
    case False
    from handleSubmit_rejected(3)[OF v False] obtain t where
      t: "trace (handleSubmit outcome st) = trace st @ PreventDefault # validation_request (ruc st) # t"
         "filter storage_effect t = []" by blast
    have "SetItem CURRENT_RUC_KEY (ruc st) \<notin> set t"
      using t(2) by (auto simp: filter_empty_conv storage_effect_def)
    then show ?thesis
      using v False t handleSubmit_rejected(1)[OF v False]
      by (simp add: new_effects_def storage_effect_def validation_request_def)
  qed
qed

theorem current_ruc_written_iff_witness:
  "fst (validateForm typed_state)
   \<and> fst (validateRucWithAPI (ruc typed_state) (Response 200 None) typed_state)
   \<and> localStorage (handleSubmit (Response 200 None) typed_state) CURRENT_RUC_KEY
       = Some (js ''10004438804'')
   \<and> \<not> fst (validateRucWithAPI (ruc typed_state) NetworkError typed_state)
   \<and> localStorage (handleSubmit NetworkError typed_state) = Map.empty
   \<and> filter storage_effect (new_effects typed_state (handleSubmit NetworkError typed_state)) = []"
proof -
  have a: "fst (validateRucWithAPI (ruc typed_state) (Response 200 None) typed_state)"
    by (simp add: api_accepts response_ok_def)
  have b: "\<not> fst (validateRucWithAPI (ruc typed_state) NetworkError typed_state)"
    by (simp add: api_accepts)
  show ?thesis
    using typed_state_valid a b
      current_ruc_written_iff [of typed_state "Response 200 None"]
      current_ruc_written_iff [of typed_state NetworkError]
    by (simp add: typed_state_fields)
qed

text \<open>
  Claim C7. When the client-side validation fails the submit handler returns at once: it sends
  no request, writes nothing to local storage and leaves the loading flag as it was. When the
  validation passes, the state in which the handler waits for the request has the loading
  flag set, so the submit button and the RUC input are disabled. When the handler resumes and
  \<open>validateRucWithAPI\<close> returns false (the RUC is refused or the request fails), the loading
  flag is reset and both controls are enabled again.
\<close>

theorem submit_guard_and_loading:
  "(\<not> fst (validateForm st) \<longrightarrow>
       \<not> fst (handleSubmit_begin st)
       \<and> trace (handleSubmit outcome st) = trace st @ [PreventDefault]
       \<and> localStorage (handleSubmit outcome st) = localStorage st
       \<and> isLoading (handleSubmit outcome st) = isLoading st)
   \<and> (fst (validateForm st) \<longrightarrow>
       fst (handleSubmit_begin st)
       \<and> isLoading (snd (handleSubmit_begin st))
       \<and> submitDisabled (snd (handleSubmit_begin st))
       \<and> rucInputDisabled (snd (handleSubmit_begin st)))
   \<and> (\<not> fst (validateRucWithAPI_resume outcome inflight) \<longrightarrow>
       \<not> isLoading (handleSubmit_resume r b outcome inflight)
       \<and> \<not> submitDisabled (handleSubmit_resume r b outcome inflight)
       \<and> \<not> rucInputDisabled (handleSubmit_resume r b outcome inflight))
   \<and> (fst (validateForm st) \<and> \<not> fst (validateRucWithAPI (ruc st) outcome st) \<longrightarrow>
       \<not> isLoading (handleSubmit outcome st))"
proof -
  have c: "\<not> isLoading (handleSubmit_resume r b outcome inflight)"
    if "\<not> fst (validateRucWithAPI_resume outcome inflight)"
    using that by (cases "validateRucWithAPI_resume outcome inflight") (auto simp: handleSubmit_resume_def)
  show ?thesis
    using c handleSubmit_rejected(2)[of st outcome]
    by (auto simp: handleSubmit_invalid handleSubmit_begin_result validateForm_result
        submitDisabled_def rucInputDisabled_def)
qed

theorem submit_guard_and_loading_witness:
  "\<not> fst (validateForm initial_auth_state)
   \<and> trace (handleSubmit NetworkError initial_auth_state) = [PreventDefault]
   \<and> fst (validateForm typed_state)
   \<and> isLoading (snd (handleSubmit_begin typed_state))
   \<and> \<not> fst (validateRucWithAPI_resume NetworkError (snd (handleSubmit_begin typed_state)))
   \<and> \<not> fst (validateRucWithAPI (ruc typed_state) NetworkError typed_state)
   \<and> \<not> isLoading (handleSubmit NetworkError typed_state)"
proof -
  have t0: "trace initial_auth_state = []"
    by (simp add: initial_auth_state_def)
  have b: "\<not> fst (validateRucWithAPI (ruc typed_state) NetworkError typed_state)"
    by (simp add: api_accepts)
  have c: "\<not> fst (validateRucWithAPI_resume NetworkError (snd (handleSubmit_begin typed_state)))"
    by (simp add: resume_accepts)
  show ?thesis
    using initial_invalid typed_state_valid b c t0
      submit_guard_and_loading [where st = initial_auth_state and outcome = NetworkError]
      submit_guard_and_loading [where st = typed_state and outcome = NetworkError
        and inflight = "snd (handleSubmit_begin typed_state)"]
    by simp
qed

section \<open>The answer with status 400\<close>

lemma permitidos_nonempty: "permitidos \<noteq> []"
  by (simp add: permitidos_def js_def)

lemma match_permitidos_sound:
  "match_permitidos s = Some g \<Longrightarrow>
   g \<noteq> [] \<and> list_all isRucListChar g
   \<and> (\<exists>pre post. s = pre @ permitidos @ g @ post \<and> (post = [] \<or> \<not> isRucListChar (hd post)))"
proof (induction s)
  case Nil
  then show ?case by simp
next
  case (Cons c cs)
  let ?rest = "drop (length permitidos) (c # cs)"
  let ?run = "takeWhile isRucListChar ?rest"
  show ?case
  proof (cases "take (length permitidos) (c # cs) = permitidos \<and> ?run \<noteq> []")
    case True
    then have g: "g = ?run"
      using Cons.prems by (simp add: Let_def)
    have split: "c # cs = permitidos @ ?rest"
      using True append_take_drop_id[of "length permitidos" "c # cs"] by simp
    have rest: "?rest = ?run @ dropWhile isRucListChar ?rest"
      by simp
    have tail: "dropWhile isRucListChar ?rest = [] \<or> \<not> isRucListChar (hd (dropWhile isRucListChar ?rest))"
      using hd_dropWhile[of isRucListChar ?rest] by blast
    have eq: "c # cs = [] @ permitidos @ g @ dropWhile isRucListChar ?rest"
      using split rest g by simp
    have all: "list_all isRucListChar g"
      unfolding g list_all_iff using set_takeWhileD by fastforce
    have ne: "g \<noteq> []"
      using True g by simp
    have "\<exists>pre post. c # cs = pre @ permitidos @ g @ post \<and> (post = [] \<or> \<not> isRucListChar (hd post))"
      using eq tail by (intro exI[of _ "[]"] exI[of _ "dropWhile isRucListChar ?rest"] conjI)
    then show ?thesis
      using ne all by simp
  next
    case False
    then have "match_permitidos cs = Some g"
      using Cons.prems by (simp add: Let_def split: if_splits)
    from Cons.IH[OF this] obtain pre post where
      "g \<noteq> []" "list_all isRucListChar g" "cs = pre @ permitidos @ g @ post"
      "post = [] \<or> \<not> isRucListChar (hd post)" by blast
    then have "c # cs = (c # pre) @ permitidos @ g @ post" by simp
    then show ?thesis
      using \<open>g \<noteq> []\<close> \<open>list_all isRucListChar g\<close> \<open>post = [] \<or> \<not> isRucListChar (hd post)\<close> by blast
  qed
qed

lemma match_permitidos_here:
  "xs \<noteq> [] \<Longrightarrow> take (length permitidos) xs = permitidos \<Longrightarrow>
   takeWhile isRucListChar (drop (length permitidos) xs) \<noteq> [] \<Longrightarrow>
   match_permitidos xs = Some (takeWhile isRucListChar (drop (length permitidos) xs))"
  by (cases xs) (simp_all add: Let_def)

lemma match_permitidos_complete:
  assumes "run \<noteq> []" and "list_all isRucListChar run"
  shows "\<exists>g. match_permitidos (pre @ permitidos @ run @ post) = Some g"
proof (induction pre)
  case Nil
  obtain r rs where r: "run = r # rs" "isRucListChar r"
    using assms by (cases run) auto
  have "takeWhile isRucListChar (drop (length permitidos) (permitidos @ run @ post)) \<noteq> []"
    using r by simp
  moreover have "take (length permitidos) (permitidos @ run @ post) = permitidos"
    by simp
  moreover have "permitidos @ run @ post \<noteq> []"
    using assms(1) by simp
  ultimately show ?case
    using match_permitidos_here[of "permitidos @ run @ post"] by simp
next
  case (Cons a pre)
  then show ?case
    by (auto simp: Let_def)
qed

lemma sample_match:
  "match_permitidos sample_message = Some (js ''10004438804, 20123456789'')"
  by (simp add: sample_message_def js_def permitidos_def isRucListChar_def isDigit_def Let_def)

lemma sample_split:
  "map trim (split_str 0x2C [0x20] [] (js ''10004438804, 20123456789''))
     = [js ''10004438804'', js ''20123456789'']"
  by (simp add: js_def trim_def isWhiteSpace_def)

lemma sample_run: "js ''10004438804, 20123456789'' \<noteq> [] \<and> list_all isRucListChar (js ''10004438804, 20123456789'')"
  by (simp add: js_def isRucListChar_def isDigit_def)

text \<open>
  Claim C4, as stated, fails: with status 400 and a body that is not JSON the handler takes
  the path of the connection error, and the RUC field error is not set.
\<close>

theorem status_400_counterexample:
  "errors (snd (validateRucWithAPI (js ''10004438804'') (Response 400 None) typed_state))
     (js ''ruc'') = None
   \<and> trace (snd (validateRucWithAPI (js ''10004438804'') (Response 400 None) typed_state)) =
       [validation_request (js ''10004438804''), ConsoleError, ShowToast toast_connection_error]"
  using resume_generic [of "Response 400 None" "perform (validation_request (js ''10004438804'')) typed_state"]
  by (simp add: validateRucWithAPI_def perform_def typed_state_fields)

text \<open>
  Claim C4, amended. When the request comes back with status 400 and the body parses to a
  value that is not null and whose \<open>message\<close> is absent, null or a string,
  \<open>validateRucWithAPI\<close> returns false, sets the RUC field error to the not-found message and
  shows one destructive toast. When the message is a string that contains the literal
  \<open>RUCs permitidos: \<close> followed by at least one digit, comma or space, the pattern matches
  and the list of available RUCs is set to the captured text split at \<open>, \<close> with each
  piece trimmed.
\<close>

theorem status_400_parsed:
  assumes "get_message errorData = Inr m"
    and "m = None \<or> m = Some JNull \<or> (\<exists>s. m = Some (JString s))"
  shows "\<not> fst (validateRucWithAPI rucValue (Response 400 (Some errorData)) st)
   \<and> errors (snd (validateRucWithAPI rucValue (Response 400 (Some errorData)) st))
       = [js ''ruc'' \<mapsto> Text msg_ruc_not_found]
   \<and> trace (snd (validateRucWithAPI rucValue (Response 400 (Some errorData)) st))
       = trace st @ [validation_request rucValue, ShowToast (toast_ruc_invalid m)]
   \<and> variant (toast_ruc_invalid m) = Destructive
   \<and> (m = Some (JString (pre @ permitidos @ run @ post)) \<and> run \<noteq> [] \<and> list_all isRucListChar run \<longrightarrow>
        (\<exists>g. match_permitidos (pre @ permitidos @ run @ post) = Some g
           \<and> g \<noteq> [] \<and> list_all isRucListChar g
           \<and> availableRucs (snd (validateRucWithAPI rucValue (Response 400 (Some errorData)) st))
               = map trim (split_str 0x2C [0x20] [] g)))"
proof -
  have ok: "\<not> response_ok 400" by (simp add: response_ok_def)
  obtain match where om: "optional_match m = Inr match"
    using assms(2) by (auto simp: optional_match_def)
  have main: "validateRucWithAPI rucValue (Response 400 (Some errorData)) st =
    (False, perform (ShowToast (toast_ruc_invalid m))
       ((case match of None \<Rightarrow> perform (validation_request rucValue) st
         | Some g \<Rightarrow> (perform (validation_request rucValue) st)
              \<lparr>availableRucs := map trim (split_str 0x2C [0x20] [] g)\<rparr>)
        \<lparr>errors := [js ''ruc'' \<mapsto> Text msg_ruc_not_found]\<rparr>))"
    using assms(1) om ok
    by (simp add: validateRucWithAPI_def validateRucWithAPI_resume_def try_validate_def status_400_def Let_def)
  have a: "\<not> fst (validateRucWithAPI rucValue (Response 400 (Some errorData)) st)"
    by (simp add: main)
  have b: "errors (snd (validateRucWithAPI rucValue (Response 400 (Some errorData)) st))
       = [js ''ruc'' \<mapsto> Text msg_ruc_not_found]"
    by (simp add: main perform_def)
  have c: "trace (snd (validateRucWithAPI rucValue (Response 400 (Some errorData)) st))
       = trace st @ [validation_request rucValue, ShowToast (toast_ruc_invalid m)]"
    by (cases match) (simp_all add: main perform_def)
  have d: "variant (toast_ruc_invalid m) = Destructive"
    by (simp add: toast_ruc_invalid_def)
  have e: "\<exists>g. match_permitidos (pre @ permitidos @ run @ post) = Some g
           \<and> g \<noteq> [] \<and> list_all isRucListChar g
           \<and> availableRucs (snd (validateRucWithAPI rucValue (Response 400 (Some errorData)) st))
               = map trim (split_str 0x2C [0x20] [] g)"
    if h: "m = Some (JString (pre @ permitidos @ run @ post))" "run \<noteq> []" "list_all isRucListChar run"
  proof -
    obtain g where g: "match_permitidos (pre @ permitidos @ run @ post) = Some g"
      using match_permitidos_complete[OF h(2,3)] by blast
    then have "match = Some g"
      using om h(1) by (simp add: optional_match_def)
    then show ?thesis
      using g match_permitidos_sound[OF g] by (simp add: main perform_def)
  qed
  show ?thesis using a b c d e by blast
qed

theorem status_400_parsed_witness:
  "get_message (JObject [(js ''message'', JString sample_message)]) = Inr (Some (JString sample_message))
   \<and> \<not> fst (validateRucWithAPI (js ''10004438804'')
              (Response 400 (Some (JObject [(js ''message'', JString sample_message)]))) typed_state)
   \<and> availableRucs (snd (validateRucWithAPI (js ''10004438804'')
              (Response 400 (Some (JObject [(js ''message'', JString sample_message)]))) typed_state))
       = [js ''10004438804'', js ''20123456789'']"
proof -
  have g: "get_message (JObject [(js ''message'', JString sample_message)]) = Inr (Some (JString sample_message))"
    by (simp add: get_message_def)
  have s: "Some (JString sample_message) = None \<or> Some (JString sample_message) = Some JNull
           \<or> (\<exists>s. Some (JString sample_message) = Some (JString s))"
    by simp
  show ?thesis
    using g sample_run sample_match sample_split
      status_400_parsed [OF g s, where pre = "js ''RUC no autorizado. ''"
        and run = "js ''10004438804, 20123456789''" and post = "js ''.''"
        and rucValue = "js ''10004438804''" and st = typed_state]
    by (simp add: sample_message_def)
qed

section \<open>The full form\<close>

lemma key_neq:
  "js ''ruc'' \<noteq> js ''email''" "js ''ruc'' \<noteq> js ''password''" "js ''email'' \<noteq> js ''password''"
  "js ''email'' \<noteq> js ''ruc''" "js ''password'' \<noteq> js ''ruc''" "js ''password'' \<noteq> js ''email''"
  by (simp_all add: js_def)

lemma foldl_record_ruc:
  "foldl record_issue fe (map (Pair (js ''ruc'')) ms) = record_last (js ''ruc'') ms fe"
  by (induction ms arbitrary: fe) (auto simp: record_last_def record_issue_def Let_def key_neq)

lemma foldl_record_email:
  "foldl record_issue fe (map (Pair (js ''email'')) ms) = record_last (js ''email'') ms fe"
  by (induction ms arbitrary: fe) (auto simp: record_last_def record_issue_def Let_def key_neq)

lemma foldl_record_password:
  "foldl record_issue fe (map (Pair (js ''password'')) ms) = record_last (js ''password'') ms fe"
  by (induction ms arbitrary: fe) (auto simp: record_last_def record_issue_def Let_def key_neq)

lemma safeParse_full:
  "safeParse (authSchema_full re) [(js ''ruc'', r), (js ''email'', e), (js ''password'', p)] =
     map (Pair (js ''ruc'')) (ruc_issues r) @ map (Pair (js ''email'')) (email_issues re e)
     @ map (Pair (js ''password'')) (password_issues p)"
  by (simp add: safeParse_def authSchema_full_def parse_key_def key_neq message_or_def
      ruc_issues_def email_issues_def password_issues_def)

lemma validateForm_full_result:
  "validateForm_full re st =
     (if ruc_issues (ruc st) = [] \<and> email_issues re (email st) = [] \<and> password_issues (password st) = []
      then (True, st\<lparr>errors := Map.empty\<rparr>)
      else (False, st\<lparr>errors :=
              record_last (js ''password'') (password_issues (password st))
                (record_last (js ''email'') (email_issues re (email st))
                   (record_last (js ''ruc'') (ruc_issues (ruc st)) Map.empty))\<rparr>))"
  by (simp add: validateForm_full_def safeParse_full fieldErrors_full_def Let_def
      foldl_record_ruc foldl_record_email foldl_record_password)

lemma ruc_issues_empty: "(ruc_issues s = []) = (length (trim s) = 11 \<and> list_all isDigit (trim s))"
  by (auto simp: ruc_issues_def test_digits_11)

lemma email_issues_empty: "(email_issues re s = []) = (re (trim s) \<and> length (trim s) \<le> 255)"
  by (auto simp: email_issues_def)

lemma password_issues_empty: "(password_issues s = []) = (6 \<le> length s \<and> length s \<le> 100)"
  by (auto simp: password_issues_def)

lemma validateForm_full_perform:
  "validateForm_full re (perform e st)
     = (fst (validateForm_full re st), perform e (snd (validateForm_full re st)))"
  by (simp add: validateForm_full_result perform_def)

lemma handleSubmit_full_begin_invalid:
  "\<not> fst (validateForm_full re st) \<Longrightarrow>
   handleSubmit_full_begin re st = (False, perform PreventDefault (snd (validateForm_full re st)))"
  by (cases "validateForm_full re st")
     (simp add: handleSubmit_full_begin_def validateForm_full_perform)

lemma handleSubmit_full_invalid:
  "\<not> fst (validateForm_full re st) \<Longrightarrow>
   handleSubmit_full re result st = perform PreventDefault (snd (validateForm_full re st))"
  by (simp add: handleSubmit_full_def handleSubmit_full_begin_invalid)

lemma handleSubmit_full_begin_valid:
  assumes "fst (validateForm_full re st)"
  shows "handleSubmit_full_begin re st =
     (True, st\<lparr>isLoading := True, errors := Map.empty,
        localStorage := (if rememberRuc st then (localStorage st)(RUC_STORAGE_KEY \<mapsto> ruc st)
                         else (localStorage st)(RUC_STORAGE_KEY := None)),
        trace := trace st @
          [PreventDefault,
           if rememberRuc st then SetItem RUC_STORAGE_KEY (ruc st) else RemoveItem RUC_STORAGE_KEY,
           if isLogin st then SignIn (email st) (password st) else SignUp (email st) (password st)]\<rparr>)"
proof -
  have v: "validateForm_full re st = (True, st\<lparr>errors := Map.empty\<rparr>)"
    using assms by (simp add: validateForm_full_result split: if_splits)
  show ?thesis
    unfolding handleSubmit_full_begin_def validateForm_full_perform v
    by (simp add: perform_def setItem_def removeItem_def Let_def)
qed

lemma handleSubmit_full_resume_storage:
  "localStorage (handleSubmit_full_resume l result st) = localStorage st"
  by (simp add: handleSubmit_full_resume_def perform_def Let_def split: auth_result.splits option.splits)

lemma handleSubmit_full_resume_trace:
  "\<exists>t. trace (handleSubmit_full_resume l result st) = trace st @ t"
  by (simp add: handleSubmit_full_resume_def perform_def Let_def split: auth_result.splits option.splits)

lemma handleSubmit_full_resume_isLoading:
  "\<not> isLoading (handleSubmit_full_resume l result st)"
  by (simp add: handleSubmit_full_resume_def)

lemma sample_full_fields:
  "ruc sample_full_state = js ''20123456789''" "rememberRuc sample_full_state"
  "email sample_full_state = js ''tu@email.com''" "password sample_full_state = js ''secreto''"
  by (simp_all add: sample_full_state_def initial_full_state_def)

lemma sample_full_valid: "fst (validateForm_full has_at sample_full_state)"
proof -
  have r: "length (js ''20123456789'') = 11 \<and> list_all isDigit (js ''20123456789'')"
    by (simp add: js_def isDigit_def)
  have e: "trim (js ''tu@email.com'') = js ''tu@email.com''"
    by (simp add: js_def trim_def isWhiteSpace_def)
  have e2: "has_at (js ''tu@email.com'') \<and> length (js ''tu@email.com'') \<le> 255"
    by (simp add: js_def has_at_def)
  have p: "length (js ''secreto'') = 7"
    by (simp add: js_def)
  show ?thesis
    using r e e2 p
    by (simp add: validateForm_full_result ruc_issues_empty email_issues_empty
        password_issues_empty sample_full_fields trim_digits)
qed

lemma validateForm_passes:
  "fst (validateForm st) = (length (trim (ruc st)) = 11 \<and> list_all isDigit (trim (ruc st)))"
  by (simp add: validateForm_result)

lemma remembering_valid: "fst (validateForm (typed_state\<lparr>rememberRuc := True\<rparr>))"
  using typed_state_valid by (simp add: validateForm_passes)

text \<open>
  Claim C8. On the full form, for every RUC, email and password, \<open>validateForm\<close> succeeds
  exactly when the trimmed RUC is 11 decimal digits, the trimmed email matches the library's
  email pattern and has at most 255 characters, and the password has between 6 and 100
  characters. Each field that fails, and no other, gets its own error: the message of its
  last failing check.
\<close>

theorem validateForm_full_iff:
  "fst (validateForm_full emailRegex st) =
     ((length (trim (ruc st)) = 11 \<and> list_all isDigit (trim (ruc st)))
      \<and> (emailRegex (trim (email st)) \<and> length (trim (email st)) \<le> 255)
      \<and> (6 \<le> length (password st) \<and> length (password st) \<le> 100))
   \<and> errors (snd (validateForm_full emailRegex st)) (js ''ruc'') =
       (if length (trim (ruc st)) = 11 \<and> list_all isDigit (trim (ruc st)) then None
        else Some (Text (if test_digits (trim (ruc st)) then msg_ruc_length else msg_ruc_numeric)))
   \<and> errors (snd (validateForm_full emailRegex st)) (js ''email'') =
       (if emailRegex (trim (email st)) \<and> length (trim (email st)) \<le> 255 then None
        else Some (if length (trim (email st)) > 255 then DefaultTooBig 255 else Text msg_email))
   \<and> errors (snd (validateForm_full emailRegex st)) (js ''password'') =
       (if 6 \<le> length (password st) \<and> length (password st) \<le> 100 then None
        else Some (if length (password st) > 100 then DefaultTooBig 100 else Text msg_password))"
proof -
  have r: "record_last (js ''password'') ps (record_last (js ''email'') es (record_last (js ''ruc'') rs Map.empty)) (js ''ruc'')
            = (if rs = [] then None else Some (last rs))" for ps es rs
    by (simp add: record_last_def key_neq)
  have e: "record_last (js ''password'') ps (record_last (js ''email'') es (record_last (js ''ruc'') rs Map.empty)) (js ''email'')
            = (if es = [] then None else Some (last es))" for ps es rs
    by (simp add: record_last_def key_neq)
  have p: "record_last (js ''password'') ps (record_last (js ''email'') es (record_last (js ''ruc'') rs Map.empty)) (js ''password'')
            = (if ps = [] then None else Some (last ps))" for ps es rs
    by (simp add: record_last_def key_neq)
  have lr: "ruc_issues s \<noteq> [] \<Longrightarrow> last (ruc_issues s) = Text (if test_digits (trim s) then msg_ruc_length else msg_ruc_numeric)" for s
    by (auto simp: ruc_issues_def)
  have le: "email_issues re s \<noteq> [] \<Longrightarrow> last (email_issues re s) = (if length (trim s) > 255 then DefaultTooBig 255 else Text msg_email)" for re s
    by (auto simp: email_issues_def)
  have lp: "password_issues s \<noteq> [] \<Longrightarrow> last (password_issues s) = (if length s > 100 then DefaultTooBig 100 else Text msg_password)" for s
    by (auto simp: password_issues_def)
  show ?thesis
  proof (cases "ruc_issues (ruc st) = [] \<and> email_issues emailRegex (email st) = [] \<and> password_issues (password st) = []")
    case True
    then show ?thesis
      using True by (simp add: validateForm_full_result ruc_issues_empty email_issues_empty password_issues_empty)
  next
    case False
    have v: "validateForm_full emailRegex st = (False, st\<lparr>errors :=
              record_last (js ''password'') (password_issues (password st))
                (record_last (js ''email'') (email_issues emailRegex (email st))
                   (record_last (js ''ruc'') (ruc_issues (ruc st)) Map.empty))\<rparr>)"
      using False by (simp add: validateForm_full_result)
    have a: "fst (validateForm_full emailRegex st) =
     ((length (trim (ruc st)) = 11 \<and> list_all isDigit (trim (ruc st)))
      \<and> (emailRegex (trim (email st)) \<and> length (trim (email st)) \<le> 255)
      \<and> (6 \<le> length (password st) \<and> length (password st) \<le> 100))"
      using False by (simp add: v ruc_issues_empty email_issues_empty password_issues_empty)
    have b: "errors (snd (validateForm_full emailRegex st)) (js ''ruc'') =
       (if length (trim (ruc st)) = 11 \<and> list_all isDigit (trim (ruc st)) then None
        else Some (Text (if test_digits (trim (ruc st)) then msg_ruc_length else msg_ruc_numeric)))"
      using lr[of "ruc st"] ruc_issues_empty[of "ruc st"] by (simp add: v r)
    have c: "errors (snd (validateForm_full emailRegex st)) (js ''email'') =
       (if emailRegex (trim (email st)) \<and> length (trim (email st)) \<le> 255 then None
        else Some (if length (trim (email st)) > 255 then DefaultTooBig 255 else Text msg_email))"
      using le[of emailRegex "email st"] email_issues_empty[of emailRegex "email st"] by (simp add: v e)
    have d: "errors (snd (validateForm_full emailRegex st)) (js ''password'') =
       (if 6 \<le> length (password st) \<and> length (password st) \<le> 100 then None
        else Some (if length (password st) > 100 then DefaultTooBig 100 else Text msg_password))"
      using lp[of "password st"] password_issues_empty[of "password st"] by (simp add: v p)
    show ?thesis using a b c d by blast
  qed
qed

theorem validateForm_full_iff_witness:
  "fst (validateForm_full has_at sample_full_state)
   \<and> errors (snd (validateForm_full has_at initial_full_state)) (js ''password'')
       = Some (Text msg_password)"
proof -
  have p: "password initial_full_state = []"
    by (simp add: initial_full_state_def)
  have r: "length (js ''20123456789'') = 11 \<and> list_all isDigit (js ''20123456789'')"
    by (simp add: js_def isDigit_def)
  have e: "trim (js ''tu@email.com'') = js ''tu@email.com''"
    by (simp add: js_def trim_def isWhiteSpace_def)
  have e2: "has_at (js ''tu@email.com'') \<and> length (js ''tu@email.com'') \<le> 255"
    by (simp add: js_def has_at_def)
  have q: "length (js ''secreto'') = 7"
    by (simp add: js_def)
  show ?thesis
    using validateForm_full_iff [of has_at sample_full_state]
      validateForm_full_iff [of has_at initial_full_state] p r e e2 q
    by (simp add: sample_full_fields trim_digits)
qed

text \<open>
  Claim C6. On the RUC screen, a submission that passes the client-side validation and whose
  RUC the API accepts sets the key \<open>remembered_ruc\<close> to the submitted RUC when the remember
  box is checked and removes the key when it is not. On the full form the same is done on
  every submission that passes the client-side validation, before signing in.
\<close>

theorem remember_preference:
  "(fst (validateForm st) \<and> fst (validateRucWithAPI (ruc st) outcome st) \<longrightarrow>
      localStorage (handleSubmit outcome st) RUC_STORAGE_KEY
        = (if rememberRuc st then Some (ruc st) else None)
      \<and> (if rememberRuc st then SetItem RUC_STORAGE_KEY (ruc st) else RemoveItem RUC_STORAGE_KEY)
          \<in> set (new_effects st (handleSubmit outcome st)))
   \<and> (fst (validateForm_full emailRegex fs) \<longrightarrow>
      localStorage (handleSubmit_full emailRegex result fs) RUC_STORAGE_KEY
        = (if rememberRuc fs then Some (ruc fs) else None)
      \<and> (if rememberRuc fs then SetItem RUC_STORAGE_KEY (ruc fs) else RemoveItem RUC_STORAGE_KEY)
          \<in> set (new_effects fs (handleSubmit_full emailRegex result fs)))"
proof -
  have one: "localStorage (handleSubmit outcome st) RUC_STORAGE_KEY
        = (if rememberRuc st then Some (ruc st) else None)
      \<and> (if rememberRuc st then SetItem RUC_STORAGE_KEY (ruc st) else RemoveItem RUC_STORAGE_KEY)
          \<in> set (new_effects st (handleSubmit outcome st))"
    if "fst (validateForm st)" "fst (validateRucWithAPI (ruc st) outcome st)"
    using that by (simp add: handleSubmit_accepted new_effects_def)
  have two: "localStorage (handleSubmit_full emailRegex result fs) RUC_STORAGE_KEY
        = (if rememberRuc fs then Some (ruc fs) else None)
      \<and> (if rememberRuc fs then SetItem RUC_STORAGE_KEY (ruc fs) else RemoveItem RUC_STORAGE_KEY)
          \<in> set (new_effects fs (handleSubmit_full emailRegex result fs))"
    if v: "fst (validateForm_full emailRegex fs)"
  proof -
    let ?b = "snd (handleSubmit_full_begin emailRegex fs)"
    have h: "handleSubmit_full emailRegex result fs = handleSubmit_full_resume (isLogin fs) result ?b"
      using v by (simp add: handleSubmit_full_def handleSubmit_full_begin_valid)
    obtain t where t: "trace (handleSubmit_full_resume (isLogin fs) result ?b) = trace ?b @ t"
      using handleSubmit_full_resume_trace by blast
    show ?thesis
      using v unfolding h new_effects_def t handleSubmit_full_resume_storage
      by (simp add: handleSubmit_full_begin_valid)
  qed
  show ?thesis using one two by blast
qed

theorem remember_preference_witness:
  "fst (validateForm typed_state)
   \<and> fst (validateRucWithAPI (ruc typed_state) (Response 200 None) typed_state)
   \<and> localStorage (handleSubmit (Response 200 None) typed_state) RUC_STORAGE_KEY = None
   \<and> fst (validateForm (typed_state\<lparr>rememberRuc := True\<rparr>))
   \<and> localStorage (handleSubmit (Response 200 None) (typed_state\<lparr>rememberRuc := True\<rparr>))
        RUC_STORAGE_KEY = Some (js ''10004438804'')
   \<and> fst (validateForm_full has_at sample_full_state)
   \<and> localStorage (handleSubmit_full has_at (AuthResolved None) sample_full_state)
        RUC_STORAGE_KEY = Some (js ''20123456789'')"
proof -
  have a: "fst (validateRucWithAPI r (Response 200 None) s)" for r s
    by (simp add: api_accepts response_ok_def)
  show ?thesis
    using typed_state_valid remembering_valid sample_full_valid a
      remember_preference [where st = typed_state and outcome = "Response 200 None"
        and fs = sample_full_state and emailRegex = has_at and result = "AuthResolved None"]
      remember_preference [where st = "typed_state\<lparr>rememberRuc := True\<rparr>"
        and outcome = "Response 200 None"
        and fs = sample_full_state and emailRegex = has_at and result = "AuthResolved None"]
    by (simp add: typed_state_fields sample_full_fields)
qed

end
